theory Spec2Isabelle
  imports Complex_Main
begin

section \<open>The request dispatch pipeline of the SIMBA SDK client\<close>

text \<open>
  A shallow embedding of \<^verbatim>\<open>simba_sdk/core/requests/client/base.py\<close> (class
  \<^verbatim>\<open>Client\<close>) and of the generated endpoint methods of
  \<^verbatim>\<open>simba_sdk/core/requests/client/credential/client.py\<close> that take a
  \<^verbatim>\<open>query_arguments\<close> object.
\<close>

subsection \<open>Python values\<close>

text \<open>
  The values that flow through the client are the ones \<^verbatim>\<open>resp.json()\<close> can
  return and the ones a caller puts into a dictionary argument. A Python \<^verbatim>\<open>dict\<close>
  keeps its items in insertion order and its keys are distinct: it is the list of its
  items.
\<close>

datatype py_value =
    PyNone
  | PyBool bool
  | PyInt int
  | PyFloat real
  | PyStr string
  | PyList "py_value list"
  | PyDict "(string \<times> py_value) list"

type_synonym py_dict = "(string \<times> py_value) list"

text \<open>
  \<^verbatim>\<open>a | b\<close> on dictionaries, which is also what \<^verbatim>\<open>a.update(b)\<close> leaves in
  \<open>a\<close>: the items of \<open>a\<close> in their places, with the value of \<open>b\<close> where \<open>b\<close> has
  the key, followed by the items of \<open>b\<close> whose key is new. \<open>or_empty\<close> is the
  normalisation \<^verbatim>\<open>if x is None: x = {}\<close>.
\<close>

definition dict_or :: "py_dict \<Rightarrow> py_dict \<Rightarrow> py_dict" where
  "dict_or a b =
     map (\<lambda>(k, v). (k, case map_of b k of None \<Rightarrow> v | Some w \<Rightarrow> w)) a
     @ filter (\<lambda>(k, w). map_of a k = None) b"

definition or_empty :: "'a list option \<Rightarrow> 'a list" where
  "or_empty x = (case x of None \<Rightarrow> [] | Some xs \<Rightarrow> xs)"

text \<open>Truth value testing, as \<^verbatim>\<open>if x:\<close> and \<^verbatim>\<open>not x\<close> do it.\<close>

fun truthy :: "py_value \<Rightarrow> bool" where
  "truthy PyNone = False"
| "truthy (PyBool b) = b"
| "truthy (PyInt n) = (n \<noteq> 0)"
| "truthy (PyFloat r) = (r \<noteq> 0)"
| "truthy (PyStr s) = (s \<noteq> [])"
| "truthy (PyList xs) = (xs \<noteq> [])"
| "truthy (PyDict kvs) = (kvs \<noteq> [])"

text \<open>
  An \<^verbatim>\<open>Optional\<close> container argument: \<^verbatim>\<open>None\<close> and the empty container are
  both false.
\<close>

definition truthy_opt :: "'a list option \<Rightarrow> bool" where
  "truthy_opt x = (case x of None \<Rightarrow> False | Some xs \<Rightarrow> xs \<noteq> [])"

text \<open>
  Formatting inside an f-string, \<^verbatim>\<open>f"{v}"\<close>: a string is inserted as it is; for
  every other value Python's built-in \<^verbatim>\<open>str\<close> is called, which is not code of this
  repository and is the parameter \<open>str_of\<close>.
\<close>

definition format_value :: "(py_value \<Rightarrow> string) \<Rightarrow> py_value \<Rightarrow> string" where
  "format_value str_of v = (case v of PyStr s \<Rightarrow> s | _ \<Rightarrow> str_of v)"

subsection \<open>Errors\<close>

text \<open>
  Every exception the modelled code raises or lets through. \<open>RequestException\<close> carries
  \<^verbatim>\<open>status_code\<close> and \<^verbatim>\<open>message\<close>; \<open>Propagated\<close> stands for whatever a
  middleware stage or the transport raises.
\<close>

datatype error =
    LookupError string
  | RequestException int string
  | JSONDecodeError
  | TypeError
  | KeyError string
  | AttributeError
  | EnsureException string
  | Propagated string

subsection \<open>Requests and responses\<close>

text \<open>
  A request, as the transport client builds it and the middleware manager receives
  it: the method, the URL, the body, upload and query parameters given to
  \<^verbatim>\<open>build_request\<close> (an argument that is not passed has the library's default
  \<^verbatim>\<open>None\<close>), and the headers and cookies it goes out with. An upload is a
  sequence of named file payloads.
\<close>

type_synonym request_files = "(string \<times> string) list"

record request =
  req_method :: string
  req_url :: string
  req_data :: "py_dict option"
  req_files :: "request_files option"
  req_params :: "py_dict option"
  req_headers :: py_dict
  req_cookies :: py_dict

text \<open>
  Header names are compared without regard to case: \<open>str_lower\<close> is
  \<^verbatim>\<open>lower()\<close> on the bytes of a name. \<open>header_values\<close> are the values a header
  list holds under a name.
\<close>

definition lower_char :: "char \<Rightarrow> char" where
  "lower_char ch =
     (case map_of (zip ''ABCDEFGHIJKLMNOPQRSTUVWXYZ'' ''abcdefghijklmnopqrstuvwxyz'') ch of
        Some l \<Rightarrow> l
      | None \<Rightarrow> ch)"

definition str_lower :: "string \<Rightarrow> string" where
  "str_lower s = map lower_char s"

definition header_values :: "py_dict \<Rightarrow> string \<Rightarrow> py_value list" where
  "header_values hs name = map snd (filter (\<lambda>(k, v). str_lower k = str_lower name) hs)"

text \<open>
  A response: its status code, \<open>resp_text\<close> is \<^verbatim>\<open>resp.text\<close>, and
  \<open>resp_json\<close> is what \<^verbatim>\<open>resp.json()\<close> returns, \<open>None\<close> when the body does
  not decode as JSON (then the call raises \<^verbatim>\<open>json.JSONDecodeError\<close>, a
  \<^verbatim>\<open>ValueError\<close>).
\<close>

record response =
  status_code :: int
  resp_text :: string
  resp_json :: "py_value option"

text \<open>
  \<^verbatim>\<open>resp.json()[key]\<close>: decoding may fail; subscripting a dictionary with a key it
  lacks raises \<^verbatim>\<open>KeyError\<close>; subscripting any other JSON value with a string
  raises \<^verbatim>\<open>TypeError\<close>.
\<close>

fun json_subscript :: "py_value option \<Rightarrow> string \<Rightarrow> error + py_value" where
  "json_subscript None key = Inl JSONDecodeError"
| "json_subscript (Some (PyDict kvs)) key =
     (case map_of kvs key of None \<Rightarrow> Inl (KeyError key) | Some v \<Rightarrow> Inr v)"
| "json_subscript (Some v) key = Inl TypeError"

subsection \<open>The token store\<close>

text \<open>
  Modelled from the spec: \<^verbatim>\<open>BaseTokenStore\<close>
  (\<^verbatim>\<open>simba_sdk/core/requests/auth/token_store.py\<close>) is not among the sources.
  The spec gives it two operations: \<^verbatim>\<open>get_token(identifier)\<close> returns the stored
  token or an absent value (\<^verbatim>\<open>None\<close>) and does not raise;
  \<^verbatim>\<open>set_token(identifier, token, expires)\<close> stores or overwrites the token and
  its expiry. A store object is true in a truth test.
\<close>

type_synonym token_store = "string \<rightharpoonup> (py_value \<times> py_value)"

definition get_token :: "token_store \<Rightarrow> string \<Rightarrow> py_value" where
  "get_token ts identifier = (case ts identifier of None \<Rightarrow> PyNone | Some (tok, ex) \<Rightarrow> tok)"

definition set_token :: "token_store \<Rightarrow> string \<Rightarrow> py_value \<Rightarrow> py_value \<Rightarrow> token_store" where
  "set_token ts identifier tok ex = ts(identifier \<mapsto> (tok, ex))"

subsection \<open>The client\<close>

text \<open>
  The environment of a client: the two settings it reads; the headers and cookies of
  its transport client \<^verbatim>\<open>self._client\<close>, which are the \<^verbatim>\<open>headers\<close> and
  \<^verbatim>\<open>cookies\<close> given to the constructor together with the library's default headers
  (\<^verbatim>\<open>accept\<close>, \<^verbatim>\<open>accept-encoding\<close>, \<^verbatim>\<open>connection\<close>, \<^verbatim>\<open>user-agent\<close>),
  or those of the transport client passed to the constructor; the middleware manager's
  \<^verbatim>\<open>send\<close> applied to the client's transport (not among the sources: a request
  goes in, a response comes out or an exception is raised); and Python's \<^verbatim>\<open>str\<close>.
\<close>

record env =
  CLIENT_ID :: string
  CLIENT_SECRET :: string
  client_headers :: py_dict
  client_cookies :: py_dict
  manager_send :: "request \<Rightarrow> error + response"
  str_of :: "py_value \<Rightarrow> string"

text \<open>
  \<^verbatim>\<open>self._client.build_request\<close>. The transport client is the HTTP library's
  \<^verbatim>\<open>httpx.AsyncClient\<close>, which is not code of this repository; its request builder
  is taken as the library documents it. The headers of the built request are the
  transport client's own headers updated with the \<^verbatim>\<open>headers\<close> argument: the own
  headers whose name the argument does not give, followed by the headers of the
  argument. The cookies are the transport client's own cookies updated with the
  \<^verbatim>\<open>cookies\<close> argument. The other arguments go into the request as they are (the
  constructor gives the transport client no base URL and no query parameters of its
  own). Headers the library derives from the request itself (\<^verbatim>\<open>Host\<close>,
  \<^verbatim>\<open>Content-Length\<close>, \<^verbatim>\<open>Content-Type\<close>, \<^verbatim>\<open>Cookie\<close>) are not part of
  \<open>req_headers\<close>.
\<close>

definition merge_headers :: "py_dict \<Rightarrow> py_dict \<Rightarrow> py_dict" where
  "merge_headers own headers =
     filter (\<lambda>(k, v). str_lower k \<notin> set (map (\<lambda>(k', v'). str_lower k') headers)) own
     @ headers"

definition build_request ::
  "env \<Rightarrow> string \<Rightarrow> string \<Rightarrow> py_dict option \<Rightarrow> request_files option \<Rightarrow> py_dict option
     \<Rightarrow> py_dict option \<Rightarrow> py_dict option \<Rightarrow> request" where
  "build_request e method url data files params headers cookies =
     \<lparr>req_method = method, req_url = url, req_data = data, req_files = files,
      req_params = params,
      req_headers = merge_headers (client_headers e) (or_empty headers),
      req_cookies = dict_or (client_cookies e) (or_empty cookies)\<rparr>"

text \<open>
  The client: its base URL, its optional token store, and the requests it has handed to
  the middleware manager so far, oldest first.
\<close>

record client =
  base_url :: string
  token_store :: "token_store option"
  dispatched :: "request list"

definition startswith_slash :: "string \<Rightarrow> bool" where
  "startswith_slash url = (case url of [] \<Rightarrow> False | c # _ \<Rightarrow> c = CHR ''/'')"

definition build_url :: "client \<Rightarrow> string \<Rightarrow> string" where
  "build_url c url =
     (let url = (if \<not> startswith_slash url then ''/'' @ url else url)
      in base_url c @ url)"

text \<open>
  The spec's reading of the normalisation: the path made to begin with exactly one
  separator, however many it begins with.
\<close>

definition spec_normalize_path :: "string \<Rightarrow> string" where
  "spec_normalize_path url = ''/'' @ dropWhile (\<lambda>c. c = CHR ''/'') url"

subsection \<open>send and the verb methods\<close>

text \<open>
  An operation of the client returns what the Python method returns or raises, and
  the client afterwards.
\<close>

text \<open>\<^verbatim>\<open>Client._get_token\<close>.\<close>

definition client_get_token :: "env \<Rightarrow> client \<Rightarrow> error + py_value" where
  "client_get_token e c =
     (case token_store c of
        Some ts \<Rightarrow> Inr (get_token ts (CLIENT_ID e))
      | None \<Rightarrow> Inl (LookupError ''No token_path store registered to this client''))"

text \<open>
  The \<^verbatim>\<open>try\<close> block of \<^verbatim>\<open>send\<close>: \<^verbatim>\<open>error = resp.json()["detail"]\<close>,
  with \<^verbatim>\<open>except (KeyError, AttributeError): error = resp.text\<close>. Any other
  exception leaves the block.
\<close>

definition error_detail :: "response \<Rightarrow> error + py_value" where
  "error_detail resp =
     (case json_subscript (resp_json resp) ''detail'' of
        Inr v \<Rightarrow> Inr v
      | Inl (KeyError k) \<Rightarrow> Inr (PyStr (resp_text resp))
      | Inl AttributeError \<Rightarrow> Inr (PyStr (resp_text resp))
      | Inl err \<Rightarrow> Inl err)"

definition send ::
  "env \<Rightarrow> client \<Rightarrow> string \<Rightarrow> string \<Rightarrow> py_dict option \<Rightarrow> request_files option
     \<Rightarrow> py_dict option \<Rightarrow> py_dict option \<Rightarrow> py_dict option
     \<Rightarrow> (error + response) \<times> client" where
  "send e c method url data upload_file params headers cookies =
     (let data = or_empty data;
          cookies = or_empty cookies;
          headers = or_empty headers;
          params = or_empty params
      in case client_get_token e c of
           Inl err \<Rightarrow> (Inl err, c)
         | Inr token \<Rightarrow>
            (let headers =
                   (if truthy token
                    then [(''Authorization'',
                           PyStr (''Bearer '' @ format_value (str_of e) token))]
                    else headers);
                 request = build_request e method (build_url c url) (Some data) upload_file
                             (Some params) (Some headers) (Some cookies);
                 c' = c\<lparr>dispatched := dispatched c @ [request]\<rparr>
             in case manager_send e request of
                  Inl err \<Rightarrow> (Inl err, c')
                | Inr resp \<Rightarrow>
                    if 300 \<le> status_code resp
                    then (case error_detail resp of
                            Inl err \<Rightarrow> (Inl err, c')
                          | Inr error \<Rightarrow>
                              (Inl (RequestException (status_code resp)
                                     (''Request was unsuccessful: ''
                                        @ format_value (str_of e) error)), c'))
                    else (Inr resp, c')))"

definition get ::
  "env \<Rightarrow> client \<Rightarrow> string \<Rightarrow> py_dict option \<Rightarrow> py_dict option \<Rightarrow> py_dict option
     \<Rightarrow> (error + response) \<times> client" where
  "get e c url params headers cookies = send e c ''GET'' url None None params headers cookies"

definition post ::
  "env \<Rightarrow> client \<Rightarrow> string \<Rightarrow> py_dict option \<Rightarrow> request_files option
     \<Rightarrow> py_dict option \<Rightarrow> py_dict option \<Rightarrow> py_dict option
     \<Rightarrow> (error + response) \<times> client" where
  "post e c url data upload_file params headers cookies =
     (if \<not> truthy_opt upload_file \<and> \<not> truthy_opt data
      then (Inl (RequestException 400
                   ''Post requests must either send an upload_file or data.''), c)
      else send e c ''POST'' url data upload_file params headers cookies)"

definition put ::
  "env \<Rightarrow> client \<Rightarrow> string \<Rightarrow> py_dict option \<Rightarrow> request_files option
     \<Rightarrow> py_dict option \<Rightarrow> py_dict option \<Rightarrow> py_dict option
     \<Rightarrow> (error + response) \<times> client" where
  "put e c url data upload_file params headers cookies =
     send e c ''PUT'' url data upload_file params headers cookies"

definition patch ::
  "env \<Rightarrow> client \<Rightarrow> string \<Rightarrow> py_dict option \<Rightarrow> request_files option
     \<Rightarrow> py_dict option \<Rightarrow> py_dict option \<Rightarrow> py_dict option
     \<Rightarrow> (error + response) \<times> client" where
  "patch e c url data upload_file params headers cookies =
     send e c ''PATCH'' url data upload_file params headers cookies"

definition delete ::
  "env \<Rightarrow> client \<Rightarrow> string \<Rightarrow> py_dict option \<Rightarrow> py_dict option \<Rightarrow> py_dict option
     \<Rightarrow> (error + response) \<times> client" where
  "delete e c url params headers cookies =
     send e c ''DELETE'' url None None params headers cookies"

subsection \<open>authorise\<close>

text \<open>
  The arguments of \<^verbatim>\<open>set_token\<close> are evaluated from left to right, the token
  first, before the store is written.
\<close>

definition authorise ::
  "env \<Rightarrow> client \<Rightarrow> string \<Rightarrow> py_dict option \<Rightarrow> (error + unit) \<times> client" where
  "authorise e c token_url headers =
     (let headers = or_empty headers;
          request = build_request e ''POST'' token_url
                      (Some [(''grant_type'', PyStr ''client_credentials''),
                             (''client_id'', PyStr (CLIENT_ID e)),
                             (''client_secret'', PyStr (CLIENT_SECRET e))])
                      None None (Some headers) None;
          c' = c\<lparr>dispatched := dispatched c @ [request]\<rparr>
      in case manager_send e request of
           Inl err \<Rightarrow> (Inl err, c')
         | Inr resp \<Rightarrow>
             if \<not> status_code resp = 200
             then (Inl (RequestException (status_code resp)
                          (''Authorization failed: '' @ resp_text resp)), c')
             else (case token_store c' of
                     None \<Rightarrow>
                       (Inl (LookupError ''No token_path store registered to this client''), c')
                   | Some ts \<Rightarrow>
                       (case json_subscript (resp_json resp) ''access_token'' of
                          Inl err \<Rightarrow> (Inl err, c')
                        | Inr tok \<Rightarrow>
                            (case json_subscript (resp_json resp) ''expires_at'' of
                               Inl err \<Rightarrow> (Inl err, c')
                             | Inr ex \<Rightarrow>
                                 (Inr (),
                                  c'\<lparr>token_store :=
                                       Some (set_token ts (CLIENT_ID e) tok ex)\<rparr>)))))"

subsection \<open>The requests an operation hands over\<close>

text \<open>
  The requests handed to the middleware manager between a client state \<open>c\<close> and a
  later state \<open>c'\<close>; their number is the transport invocation count of the operation
  that led from one to the other.
\<close>

definition issued :: "client \<Rightarrow> client \<Rightarrow> request list" where
  "issued c c' = drop (length (dispatched c)) (dispatched c')"

subsection \<open>Generated endpoint methods with query arguments\<close>

text \<open>
  The twelve methods of \<^verbatim>\<open>CredentialClient\<close> that take a
  \<^verbatim>\<open>query_arguments\<close> dataclass. The dataclasses
  (\<^verbatim>\<open>credential/queries.py\<close>) are not among the sources: the argument is given
  as the items of \<^verbatim>\<open>asdict(query_arguments)\<close>. The comprehension
  \<^verbatim>\<open>{k: v for k, v in asdict(query_arguments).items() if v is not None}\<close> is
  \<open>not_none_items\<close>, and \<^verbatim>\<open>a | b\<close> on dictionaries is \<open>dict_or\<close>.
\<close>

definition not_none_items :: "py_dict \<Rightarrow> py_dict" where
  "not_none_items items = filter (\<lambda>(k, v). v \<noteq> PyNone) items"

text \<open>
  The response handling of a generated method. The pydantic schemas are not among the
  sources: \<open>validate\<close> is \<^verbatim>\<open>model_validate\<close> of the method's schema, \<open>None\<close>
  when it raises \<^verbatim>\<open>ValidationError\<close>. \<^verbatim>\<open>resp.json()\<close> is evaluated first
  and is not guarded by the \<^verbatim>\<open>except\<close> clause.
\<close>

definition model_validate ::
  "(py_value \<Rightarrow> 'm option) \<Rightarrow> response \<Rightarrow> error + 'm" where
  "model_validate validate resp =
     (case resp_json resp of
        None \<Rightarrow> Inl JSONDecodeError
      | Some v \<Rightarrow>
          (case validate v of
             None \<Rightarrow> Inl (EnsureException
                          (''The response came back in an unexpected format: ''
                             @ resp_text resp))
           | Some m \<Rightarrow> Inr m))"

text \<open>\<^verbatim>\<open>str(resp.json())\<close>.\<close>

definition str_json :: "env \<Rightarrow> response \<Rightarrow> error + string" where
  "str_json e resp =
     (case resp_json resp of
        None \<Rightarrow> Inl JSONDecodeError
      | Some v \<Rightarrow> Inr (format_value (str_of e) v))"

definition admin_list_vcs ::
  "env \<Rightarrow> (py_value \<Rightarrow> 'm option) \<Rightarrow> client \<Rightarrow> py_dict \<Rightarrow> string
     \<Rightarrow> (error + 'm) \<times> client" where
  "admin_list_vcs e validate c query_arguments domain_name =
     (let query_params = not_none_items query_arguments;
          path_params = [(''domain_name'', PyStr domain_name)]
      in case get e c (''/admin/domains/'' @ domain_name @ ''/vcs/'')
                  (Some (dict_or path_params query_params)) None None of
           (Inl err, c') \<Rightarrow> (Inl err, c')
         | (Inr resp, c') \<Rightarrow> (model_validate validate resp, c'))"

definition admin_list_vps ::
  "env \<Rightarrow> (py_value \<Rightarrow> 'm option) \<Rightarrow> client \<Rightarrow> py_dict \<Rightarrow> string
     \<Rightarrow> (error + 'm) \<times> client" where
  "admin_list_vps e validate c query_arguments domain_name =
     (let query_params = not_none_items query_arguments;
          path_params = [(''domain_name'', PyStr domain_name)]
      in case get e c (''/admin/domains/'' @ domain_name @ ''/vps/'')
                  (Some (dict_or path_params query_params)) None None of
           (Inl err, c') \<Rightarrow> (Inl err, c')
         | (Inr resp, c') \<Rightarrow> (model_validate validate resp, c'))"

definition admin_list_tasks ::
  "env \<Rightarrow> (py_value \<Rightarrow> 'm option) \<Rightarrow> client \<Rightarrow> py_dict \<Rightarrow> string
     \<Rightarrow> (error + 'm) \<times> client" where
  "admin_list_tasks e validate c query_arguments domain_name =
     (let query_params = not_none_items query_arguments;
          path_params = [(''domain_name'', PyStr domain_name)]
      in case get e c (''/admin/domains/'' @ domain_name @ ''/tasks/'')
                  (Some (dict_or path_params query_params)) None None of
           (Inl err, c') \<Rightarrow> (Inl err, c')
         | (Inr resp, c') \<Rightarrow> (model_validate validate resp, c'))"

definition list_did_strings ::
  "env \<Rightarrow> client \<Rightarrow> py_dict
     \<Rightarrow> (error + string) \<times> client" where
  "list_did_strings e c query_arguments =
     (let query_params = not_none_items query_arguments;
          path_params = []
      in case get e c (''/dids/'')
                  (Some (dict_or path_params query_params)) None None of
           (Inl err, c') \<Rightarrow> (Inl err, c')
         | (Inr resp, c') \<Rightarrow> (str_json e resp, c'))"

definition get_did_document ::
  "env \<Rightarrow> (py_value \<Rightarrow> 'm option) \<Rightarrow> client \<Rightarrow> py_dict \<Rightarrow> string
     \<Rightarrow> (error + 'm) \<times> client" where
  "get_did_document e validate c query_arguments did_id =
     (let query_params = not_none_items query_arguments;
          path_params = [(''did_id'', PyStr did_id)]
      in case get e c (''/dids/'' @ did_id)
                  (Some (dict_or path_params query_params)) None None of
           (Inl err, c') \<Rightarrow> (Inl err, c')
         | (Inr resp, c') \<Rightarrow> (model_validate validate resp, c'))"

definition list_custodial_accounts ::
  "env \<Rightarrow> (py_value \<Rightarrow> 'm option) \<Rightarrow> client \<Rightarrow> py_dict
     \<Rightarrow> (error + 'm) \<times> client" where
  "list_custodial_accounts e validate c query_arguments =
     (let query_params = not_none_items query_arguments;
          path_params = []
      in case get e c (''/users/accounts/'')
                  (Some (dict_or path_params query_params)) None None of
           (Inl err, c') \<Rightarrow> (Inl err, c')
         | (Inr resp, c') \<Rightarrow> (model_validate validate resp, c'))"

definition list_trust_profiles ::
  "env \<Rightarrow> (py_value \<Rightarrow> 'm option) \<Rightarrow> client \<Rightarrow> py_dict \<Rightarrow> string
     \<Rightarrow> (error + 'm) \<times> client" where
  "list_trust_profiles e validate c query_arguments domain_name =
     (let query_params = not_none_items query_arguments;
          path_params = [(''domain_name'', PyStr domain_name)]
      in case get e c (''/domains/'' @ domain_name @ ''/trustprofiles/'')
                  (Some (dict_or path_params query_params)) None None of
           (Inl err, c') \<Rightarrow> (Inl err, c')
         | (Inr resp, c') \<Rightarrow> (model_validate validate resp, c'))"

definition list_dids ::
  "env \<Rightarrow> (py_value \<Rightarrow> 'm option) \<Rightarrow> client \<Rightarrow> py_dict \<Rightarrow> string
     \<Rightarrow> (error + 'm) \<times> client" where
  "list_dids e validate c query_arguments domain_name =
     (let query_params = not_none_items query_arguments;
          path_params = [(''domain_name'', PyStr domain_name)]
      in case get e c (''/domains/'' @ domain_name @ ''/dids/'')
                  (Some (dict_or path_params query_params)) None None of
           (Inl err, c') \<Rightarrow> (Inl err, c')
         | (Inr resp, c') \<Rightarrow> (model_validate validate resp, c'))"

definition list_vcs ::
  "env \<Rightarrow> (py_value \<Rightarrow> 'm option) \<Rightarrow> client \<Rightarrow> py_dict \<Rightarrow> string
     \<Rightarrow> (error + 'm) \<times> client" where
  "list_vcs e validate c query_arguments domain_name =
     (let query_params = not_none_items query_arguments;
          path_params = [(''domain_name'', PyStr domain_name)]
      in case get e c (''/domains/'' @ domain_name @ ''/vcs/'')
                  (Some (dict_or path_params query_params)) None None of
           (Inl err, c') \<Rightarrow> (Inl err, c')
         | (Inr resp, c') \<Rightarrow> (model_validate validate resp, c'))"

definition accept_vc ::
  "env \<Rightarrow> client \<Rightarrow> py_dict \<Rightarrow> string \<Rightarrow> string
     \<Rightarrow> (error + string) \<times> client" where
  "accept_vc e c query_arguments vc_id domain_name =
     (let query_params = not_none_items query_arguments;
          path_params = [(''vc_id'', PyStr vc_id), (''domain_name'', PyStr domain_name)]
      in case put e c (''/domains/'' @ domain_name @ ''/vcs/'' @ vc_id @ ''/accept/'') None None
                  (Some (dict_or path_params query_params)) None None of
           (Inl err, c') \<Rightarrow> (Inl err, c')
         | (Inr resp, c') \<Rightarrow> (str_json e resp, c'))"

definition get_vps ::
  "env \<Rightarrow> (py_value \<Rightarrow> 'm option) \<Rightarrow> client \<Rightarrow> py_dict \<Rightarrow> string
     \<Rightarrow> (error + 'm) \<times> client" where
  "get_vps e validate c query_arguments domain_name =
     (let query_params = not_none_items query_arguments;
          path_params = [(''domain_name'', PyStr domain_name)]
      in case get e c (''/domains/'' @ domain_name @ ''/vps/'')
                  (Some (dict_or path_params query_params)) None None of
           (Inl err, c') \<Rightarrow> (Inl err, c')
         | (Inr resp, c') \<Rightarrow> (model_validate validate resp, c'))"

definition list_tasks ::
  "env \<Rightarrow> (py_value \<Rightarrow> 'm option) \<Rightarrow> client \<Rightarrow> py_dict \<Rightarrow> string
     \<Rightarrow> (error + 'm) \<times> client" where
  "list_tasks e validate c query_arguments domain_name =
     (let query_params = not_none_items query_arguments;
          path_params = [(''domain_name'', PyStr domain_name)]
      in case get e c (''/domains/'' @ domain_name @ ''/tasks/'')
                  (Some (dict_or path_params query_params)) None None of
           (Inl err, c') \<Rightarrow> (Inl err, c')
         | (Inr resp, c') \<Rightarrow> (model_validate validate resp, c'))"

subsection \<open>The requests that send and authorise build\<close>

text \<open>
  The request that \<^verbatim>\<open>send\<close> builds on a client whose token store is \<open>ts\<close>, and
  the request that \<^verbatim>\<open>authorise\<close> builds, written out once so that the request an
  operation hands over can be named. That the operations hand over exactly these is
  proved below (\<open>send_with_store\<close>, \<open>authorise_unfold\<close>).
\<close>

definition send_request ::
  "env \<Rightarrow> client \<Rightarrow> token_store \<Rightarrow> string \<Rightarrow> string \<Rightarrow> py_dict option
     \<Rightarrow> request_files option \<Rightarrow> py_dict option \<Rightarrow> py_dict option \<Rightarrow> py_dict option
     \<Rightarrow> request" where
  "send_request e c ts method url data upload_file params headers cookies =
     build_request e method (build_url c url) (Some (or_empty data)) upload_file
       (Some (or_empty params))
       (Some (if truthy (get_token ts (CLIENT_ID e))
              then [(''Authorization'',
                     PyStr (''Bearer ''
                              @ format_value (str_of e) (get_token ts (CLIENT_ID e))))]
              else or_empty headers))
       (Some (or_empty cookies))"

definition authorise_request :: "env \<Rightarrow> string \<Rightarrow> py_dict option \<Rightarrow> request" where
  "authorise_request e token_url headers =
     build_request e ''POST'' token_url
       (Some [(''grant_type'', PyStr ''client_credentials''),
              (''client_id'', PyStr (CLIENT_ID e)),
              (''client_secret'', PyStr (CLIENT_SECRET e))])
       None None (Some (or_empty headers)) None"

subsection \<open>Concrete clients and environments\<close>

text \<open>
  An environment whose middleware manager answers every request with the response
  \<open>resp\<close> and whose transport client was constructed with no headers and no cookies
  of the caller's, so that its headers are the library's defaults (the values of
  \<^verbatim>\<open>accept-encoding\<close> and \<^verbatim>\<open>user-agent\<close> vary with the installation); a
  fresh client with a given token store; and a store holding one token for the client
  identifier.
\<close>

definition example_env :: "response \<Rightarrow> env" where
  "example_env resp =
     \<lparr>CLIENT_ID = ''client-1'', CLIENT_SECRET = ''s3cret'',
      client_headers = [(''accept'', PyStr ''*/*''),
                        (''accept-encoding'', PyStr ''gzip, deflate''),
                        (''connection'', PyStr ''keep-alive''),
                        (''user-agent'', PyStr ''python-httpx/0.27.0'')],
      client_cookies = [],
      manager_send = (\<lambda>r. Inr resp), str_of = (\<lambda>v. ''<value>'')\<rparr>"

definition example_client :: "token_store option \<Rightarrow> client" where
  "example_client ts =
     \<lparr>base_url = ''https://api.example'', token_store = ts, dispatched = []\<rparr>"

definition example_store :: "py_value \<Rightarrow> token_store" where
  "example_store tok = [''client-1'' \<mapsto> (tok, PyInt 1700000000)]"

definition ok_response :: response where
  "ok_response = \<lparr>status_code = 200, resp_text = ''{}'', resp_json = Some (PyDict [])\<rparr>"

text \<open>A failure response with a JSON body, and one whose body is not JSON.\<close>

definition not_found_response :: response where
  \<open>not_found_response =
     \<lparr>status_code = 404, resp_text = ''{"detail": "Not found"}'',
      resp_json = Some (PyDict [(''detail'', PyStr ''Not found'')])\<rparr>\<close>

definition gateway_error_response :: response where
  "gateway_error_response =
     \<lparr>status_code = 502, resp_text = ''<html>Bad Gateway</html>'', resp_json = None\<rparr>"

text \<open>
  The answers of a token endpoint: the token of the spec's example, and a refusal.
\<close>

definition token_response :: response where
  \<open>token_response =
     \<lparr>status_code = 200,
      resp_text = ''{"access_token": "tok123", "expires_at": 1700000000}'',
      resp_json = Some (PyDict [(''access_token'', PyStr ''tok123''),
                                (''expires_at'', PyInt 1700000000)])\<rparr>\<close>

definition unauthorized_response :: response where
  "unauthorized_response =
     \<lparr>status_code = 401, resp_text = ''invalid client'', resp_json = None\<rparr>"

section \<open>Properties\<close>

subsection \<open>build_url\<close>

lemma build_url_eq:
  "build_url c url = base_url c @ (if startswith_slash url then url else CHR ''/'' # url)"
  by (simp add: build_url_def)

text \<open>
  C7: for every base URL and every path \<open>x\<close> that does not begin with a separator,
  \<open>build_url x\<close> and \<open>build_url ("/" + x)\<close> are the same absolute URL. \<open>build_url\<close>
  is a function of the client and the path that returns only the URL: the client is
  not changed by it.
\<close>

theorem build_url_leading_separator:
  "\<not> startswith_slash x \<Longrightarrow> build_url c (''/'' @ x) = build_url c x"
  by (simp add: build_url_def startswith_slash_def)

theorem build_url_leading_separator_witness:
  "\<not> startswith_slash ''dids/'' \<and>
   build_url \<lparr>base_url = ''https://api.example'', token_store = None, dispatched = []\<rparr>
     (''/'' @ ''dids/'') =
   build_url \<lparr>base_url = ''https://api.example'', token_store = None, dispatched = []\<rparr>
     ''dids/''"
proof -
  have h: "\<not> startswith_slash ''dids/''"
    by (simp add: startswith_slash_def)
  show ?thesis
    using h build_url_leading_separator [OF h] by simp
qed

text \<open>
  C8, as stated: \<open>build_url\<close> returns the base URL followed by the path normalised to
  begin with exactly one separator. It fails on a path with two leading separators,
  which is appended as it is.
\<close>

theorem build_url_single_separator_counterexample:
  "build_url \<lparr>base_url = ''https://api.example'', token_store = None, dispatched = []\<rparr> ''//x''
     = ''https://api.example//x'' \<and>
   build_url \<lparr>base_url = ''https://api.example'', token_store = None, dispatched = []\<rparr> ''//x''
     \<noteq> ''https://api.example'' @ spec_normalize_path ''//x''"
  by (simp add: build_url_def startswith_slash_def spec_normalize_path_def)

text \<open>
  C8, amended: \<open>build_url\<close> returns the base URL followed by the path, with one
  separator put in front when the path does not begin with one and the path as given
  when it does; the result agrees with the normalised path whenever the given path has
  at most one leading separator.
\<close>

theorem build_url_at_least_one_separator:
  "build_url c url = base_url c @ (if startswith_slash url then url else ''/'' @ url) \<and>
   (\<not> startswith_slash (drop 1 url) \<longrightarrow>
      build_url c url = base_url c @ spec_normalize_path url)"
  by (cases url; cases "tl url")
     (auto simp: build_url_def startswith_slash_def spec_normalize_path_def)

theorem build_url_at_least_one_separator_witness:
  "build_url \<lparr>base_url = ''https://api.example'', token_store = None, dispatched = []\<rparr> ''/x''
     = ''https://api.example'' @ (if startswith_slash ''/x'' then ''/x'' else ''/'' @ ''/x'') \<and>
   \<not> startswith_slash (drop 1 ''/x'') \<and>
   build_url \<lparr>base_url = ''https://api.example'', token_store = None, dispatched = []\<rparr> ''/x''
     = ''https://api.example'' @ spec_normalize_path ''/x''"
  using build_url_at_least_one_separator
    [of "\<lparr>base_url = ''https://api.example'', token_store = None, dispatched = []\<rparr>" "''/x''"]
  by (simp add: startswith_slash_def spec_normalize_path_def)

subsection \<open>What send hands over and what it returns\<close>

lemma issued_same [simp]: "issued c c = []"
  by (simp add: issued_def)

lemma issued_append [simp]: "issued c (c\<lparr>dispatched := dispatched c @ rs\<rparr>) = rs"
  by (simp add: issued_def)

lemma send_no_store:
  "token_store c = None \<Longrightarrow>
   send e c method url data upload_file params headers cookies =
     (Inl (LookupError ''No token_path store registered to this client''), c)"
  by (simp add: send_def client_get_token_def)

lemma send_with_store:
  "token_store c = Some ts \<Longrightarrow>
   send e c method url data upload_file params headers cookies =
     (case manager_send e
             (send_request e c ts method url data upload_file params headers cookies) of
        Inl err \<Rightarrow> Inl err
      | Inr resp \<Rightarrow>
          if 300 \<le> status_code resp
          then (case error_detail resp of
                  Inl err \<Rightarrow> Inl err
                | Inr v \<Rightarrow> Inl (RequestException (status_code resp)
                            (''Request was unsuccessful: '' @ format_value (str_of e) v)))
          else Inr resp,
      c\<lparr>dispatched := dispatched c
            @ [send_request e c ts method url data upload_file params headers cookies]\<rparr>)"
  unfolding send_def client_get_token_def send_request_def Let_def
  by (simp split: sum.split)

lemma send_issued:
  "token_store c = Some ts \<Longrightarrow>
   issued c (snd (send e c method url data upload_file params headers cookies)) =
     [send_request e c ts method url data upload_file params headers cookies]"
  by (simp add: send_with_store)

lemma or_empty_Some [simp]: "or_empty (Some xs) = xs"
  by (simp add: or_empty_def)

lemma send_request_headers:
  "req_headers (send_request e c ts method url data upload_file params headers cookies) =
     merge_headers (client_headers e)
       (if truthy (get_token ts (CLIENT_ID e))
        then [(''Authorization'',
               PyStr (''Bearer '' @ format_value (str_of e) (get_token ts (CLIENT_ID e))))]
        else or_empty headers)"
  by (simp add: send_request_def build_request_def)

lemma send_request_params:
  "req_params (send_request e c ts method url data upload_file params headers cookies) =
     Some (or_empty params)"
  by (simp add: send_request_def build_request_def)

lemma header_values_merge_single:
  "header_values (merge_headers own [(name, v)]) name = [v]"
  by (auto simp: header_values_def merge_headers_def filter_empty_conv)

lemma example_client_store [simp]: "token_store (example_client ts) = ts"
  by (simp add: example_client_def)

lemma example_env_manager [simp]: "manager_send (example_env resp) r = Inr resp"
  by (simp add: example_env_def)

lemma example_env_client_id [simp]: "CLIENT_ID (example_env resp) = ''client-1''"
  by (simp add: example_env_def)

lemma example_env_headers [simp]:
  "client_headers (example_env resp) =
     [(''accept'', PyStr ''*/*''), (''accept-encoding'', PyStr ''gzip, deflate''),
      (''connection'', PyStr ''keep-alive''), (''user-agent'', PyStr ''python-httpx/0.27.0'')]"
  by (simp add: example_env_def)

lemma example_store_token [simp]: "get_token (example_store tok) ''client-1'' = tok"
  by (simp add: example_store_def get_token_def)

text \<open>
  C6: on a client constructed with no token store, every call to \<open>send\<close> raises the
  lookup error during token resolution: the client is returned as it was, so no request
  has been built or handed to the middleware manager.
\<close>

theorem send_without_token_store:
  "token_store c = None \<Longrightarrow>
   fst (send e c method url data upload_file params headers cookies) =
     Inl (LookupError ''No token_path store registered to this client'') \<and>
   snd (send e c method url data upload_file params headers cookies) = c \<and>
   issued c (snd (send e c method url data upload_file params headers cookies)) = []"
  by (simp add: send_no_store)

theorem send_without_token_store_witness:
  "token_store (example_client None) = None \<and>
   fst (send (example_env ok_response) (example_client None) ''GET'' ''/dids/''
          None None None None None) =
     Inl (LookupError ''No token_path store registered to this client'') \<and>
   issued (example_client None)
     (snd (send (example_env ok_response) (example_client None) ''GET'' ''/dids/''
             None None None None None)) = []"
proof -
  have h: "token_store (example_client None) = None" by simp
  show ?thesis using h send_without_token_store [OF h] by simp
qed

text \<open>
  C1, as stated: whenever the token store yields a token, the request handed to the
  middleware manager carries the header \<open>Authorization: Bearer <token>\<close>, and its
  header map is exactly that single entry. The first fails when the stored token is
  the empty string: \<^verbatim>\<open>if token:\<close> is false for it, so the caller's headers go out
  and the request has no Authorization header. The second fails for every token: the
  request is built by the transport client, which puts its own headers beside the one
  that \<open>send\<close> gives it.
\<close>

theorem send_empty_token_counterexample:
  "get_token (example_store (PyStr [])) ''client-1'' = PyStr [] \<and>
   get_token (example_store (PyStr [])) ''client-1'' \<noteq> PyNone \<and>
   map (\<lambda>r. header_values (req_headers r) ''Authorization'')
     (issued (example_client (Some (example_store (PyStr []))))
        (snd (send (example_env ok_response)
                (example_client (Some (example_store (PyStr []))))
                ''GET'' ''/dids/'' None None None
                (Some [(''Accept'', PyStr ''application/json'')]) None)))
     = [[]] \<and>
   map (\<lambda>r. header_values (req_headers r) ''Accept'')
     (issued (example_client (Some (example_store (PyStr []))))
        (snd (send (example_env ok_response)
                (example_client (Some (example_store (PyStr []))))
                ''GET'' ''/dids/'' None None None
                (Some [(''Accept'', PyStr ''application/json'')]) None)))
     = [[PyStr ''application/json'']] \<and>
   map req_headers
     (issued (example_client (Some (example_store (PyStr ''tok123''))))
        (snd (send (example_env ok_response)
                (example_client (Some (example_store (PyStr ''tok123''))))
                ''GET'' ''/dids/'' None None None None None)))
     = [[(''accept'', PyStr ''*/*''), (''accept-encoding'', PyStr ''gzip, deflate''),
         (''connection'', PyStr ''keep-alive''),
         (''user-agent'', PyStr ''python-httpx/0.27.0''),
         (''Authorization'', PyStr ''Bearer tok123'')]] \<and>
   map req_headers
     (issued (example_client (Some (example_store (PyStr ''tok123''))))
        (snd (send (example_env ok_response)
                (example_client (Some (example_store (PyStr ''tok123''))))
                ''GET'' ''/dids/'' None None None None None)))
     \<noteq> [[(''Authorization'', PyStr ''Bearer tok123'')]]"
  by (simp add: send_issued [of _ "example_store (PyStr [])"]
      send_issued [of _ "example_store (PyStr ''tok123'')"] send_request_headers
      merge_headers_def header_values_def str_lower_def lower_char_def format_value_def)

text \<open>
  C1, amended: on a client with a token store, \<open>send\<close> hands exactly one request to the
  middleware manager. When the store yields a non-empty token string \<open>t\<close>, \<open>send\<close>
  gives the transport client's request builder the single header
  \<open>Authorization: Bearer t\<close>, whatever headers the caller supplied: the headers of the
  request are the transport client's own headers updated with that one entry, none of
  the caller's is among them, and \<open>Bearer t\<close> is the one value of the request's
  Authorization header. When the store yields no token (\<^verbatim>\<open>None\<close>) or the empty
  string, \<open>send\<close> injects nothing and gives the builder the caller's headers
  unchanged (the empty dictionary when the caller gave none): the headers of the
  request are the transport client's own headers updated with the caller's.
\<close>

theorem send_authorization_header:
  assumes "token_store c = Some ts"
  shows "(get_token ts (CLIENT_ID e) = PyStr t \<and> t \<noteq> [] \<longrightarrow>
            map req_headers
              (issued c (snd (send e c method url data upload_file params headers cookies)))
              = [merge_headers (client_headers e)
                   [(''Authorization'', PyStr (''Bearer '' @ t))]] \<and>
            map (\<lambda>r. header_values (req_headers r) ''Authorization'')
              (issued c (snd (send e c method url data upload_file params headers cookies)))
              = [[PyStr (''Bearer '' @ t)]]) \<and>
         (get_token ts (CLIENT_ID e) = PyNone \<or> get_token ts (CLIENT_ID e) = PyStr [] \<longrightarrow>
            map req_headers
              (issued c (snd (send e c method url data upload_file params headers cookies)))
              = [merge_headers (client_headers e) (or_empty headers)])"
  using assms
  by (auto simp: send_issued send_request_headers format_value_def
      header_values_merge_single)

theorem send_authorization_header_witness:
  "token_store (example_client (Some (example_store (PyStr ''tok123''))))
     = Some (example_store (PyStr ''tok123'')) \<and>
   get_token (example_store (PyStr ''tok123'')) (CLIENT_ID (example_env ok_response))
     = PyStr ''tok123'' \<and> ''tok123'' \<noteq> [] \<and>
   map req_headers
     (issued (example_client (Some (example_store (PyStr ''tok123''))))
        (snd (send (example_env ok_response)
                (example_client (Some (example_store (PyStr ''tok123''))))
                ''GET'' ''/dids/'' None None None
                (Some [(''Accept'', PyStr ''application/json'')]) None)))
     = [[(''accept'', PyStr ''*/*''), (''accept-encoding'', PyStr ''gzip, deflate''),
         (''connection'', PyStr ''keep-alive''),
         (''user-agent'', PyStr ''python-httpx/0.27.0''),
         (''Authorization'', PyStr ''Bearer tok123'')]] \<and>
   map (\<lambda>r. header_values (req_headers r) ''Authorization'')
     (issued (example_client (Some (example_store (PyStr ''tok123''))))
        (snd (send (example_env ok_response)
                (example_client (Some (example_store (PyStr ''tok123''))))
                ''GET'' ''/dids/'' None None None
                (Some [(''Accept'', PyStr ''application/json'')]) None)))
     = [[PyStr ''Bearer tok123'']] \<and>
   token_store (example_client (Some Map.empty)) = Some Map.empty \<and>
   get_token Map.empty (CLIENT_ID (example_env ok_response)) = PyNone \<and>
   map req_headers
     (issued (example_client (Some Map.empty))
        (snd (send (example_env ok_response) (example_client (Some Map.empty))
                ''GET'' ''/dids/'' None None None
                (Some [(''Accept'', PyStr ''application/json'')]) None)))
     = [[(''accept-encoding'', PyStr ''gzip, deflate''),
         (''connection'', PyStr ''keep-alive''),
         (''user-agent'', PyStr ''python-httpx/0.27.0''),
         (''Accept'', PyStr ''application/json'')]]"
proof -
  have h1: "token_store (example_client (Some (example_store (PyStr ''tok123''))))
              = Some (example_store (PyStr ''tok123''))"
    by simp
  have h2: "token_store (example_client (Some Map.empty)) = Some Map.empty"
    by simp
  have g: "get_token Map.empty (CLIENT_ID (example_env ok_response)) = PyNone"
    by (simp add: get_token_def)
  show ?thesis
    using send_authorization_header [OF h1, of "example_env ok_response" "''tok123''"
            "''GET''" "''/dids/''" None None None
            "Some [(''Accept'', PyStr ''application/json'')]" None]
          send_authorization_header [OF h2, of "example_env ok_response" "[]"
            "''GET''" "''/dids/''" None None None
            "Some [(''Accept'', PyStr ''application/json'')]" None]
          g
    by (simp add: merge_headers_def str_lower_def lower_char_def)
qed

subsection \<open>Failure responses\<close>

lemma error_detail_object:
  "resp_json resp = Some (PyDict kvs) \<Longrightarrow>
   error_detail resp =
     Inr (case map_of kvs ''detail'' of None \<Rightarrow> PyStr (resp_text resp) | Some v \<Rightarrow> v)"
  by (simp add: error_detail_def split: option.split)

lemma error_detail_not_json:
  "resp_json resp = None \<Longrightarrow> error_detail resp = Inl JSONDecodeError"
  by (simp add: error_detail_def)

text \<open>
  C2, as stated: for a response with status at least 300 whose JSON body has a
  \<open>detail\<close> field, the message of the raised exception equals that field. It does
  not: the message is the field behind the fixed prefix
  \<open>Request was unsuccessful: \<close>.
\<close>

theorem send_failure_message_counterexample:
  "300 \<le> status_code not_found_response \<and>
   resp_json not_found_response = Some (PyDict [(''detail'', PyStr ''Not found'')]) \<and>
   fst (send (example_env not_found_response)
          (example_client (Some (example_store (PyStr ''tok123''))))
          ''GET'' ''/dids/missing'' None None None None None)
     = Inl (RequestException 404 ''Request was unsuccessful: Not found'') \<and>
   fst (send (example_env not_found_response)
          (example_client (Some (example_store (PyStr ''tok123''))))
          ''GET'' ''/dids/missing'' None None None None None)
     \<noteq> Inl (RequestException 404 ''Not found'')"
  by (simp add: send_with_store [of _ "example_store (PyStr ''tok123'')"]
      error_detail_object [of _ "[(''detail'', PyStr ''Not found'')]"]
      not_found_response_def format_value_def)

text \<open>
  C2, amended: on a client with a token store, \<open>send\<close> builds its request and hands
  it, and nothing else, to the middleware manager; when the manager answers that
  request with a response of status at least 300 whose body decodes to a JSON object,
  \<open>send\<close> raises a \<open>RequestException\<close> with that status whose message is
  \<open>Request was unsuccessful: \<close> followed by the object's \<open>detail\<close> field (a string
  as it is, any other value as Python's \<open>str\<close> prints it) when the object has that
  key, and followed by the raw response text when it has not.
\<close>

theorem send_failure_message:
  assumes "token_store c = Some ts"
    and "manager_send e
           (send_request e c ts method url data upload_file params headers cookies)
           = Inr resp"
    and "300 \<le> status_code resp"
    and "resp_json resp = Some (PyDict kvs)"
  shows "issued c (snd (send e c method url data upload_file params headers cookies)) =
           [send_request e c ts method url data upload_file params headers cookies] \<and>
         fst (send e c method url data upload_file params headers cookies) =
           Inl (RequestException (status_code resp)
                  (''Request was unsuccessful: '' @
                     (case map_of kvs ''detail'' of
                        Some (PyStr s) \<Rightarrow> s
                      | Some v \<Rightarrow> str_of e v
                      | None \<Rightarrow> resp_text resp)))"
  using assms(2,3)
  by (simp add: send_with_store [OF assms(1)] error_detail_object [OF assms(4)]
      format_value_def split: option.split py_value.split)

theorem send_failure_message_witness:
  "token_store (example_client (Some (example_store (PyStr ''tok123''))))
     = Some (example_store (PyStr ''tok123'')) \<and>
   manager_send (example_env not_found_response)
     (send_request (example_env not_found_response)
        (example_client (Some (example_store (PyStr ''tok123''))))
        (example_store (PyStr ''tok123''))
        ''GET'' ''/dids/missing'' None None None None None)
     = Inr not_found_response \<and>
   300 \<le> status_code not_found_response \<and>
   resp_json not_found_response = Some (PyDict [(''detail'', PyStr ''Not found'')]) \<and>
   map req_url
     (issued (example_client (Some (example_store (PyStr ''tok123''))))
        (snd (send (example_env not_found_response)
                (example_client (Some (example_store (PyStr ''tok123''))))
                ''GET'' ''/dids/missing'' None None None None None)))
     = [''https://api.example/dids/missing''] \<and>
   fst (send (example_env not_found_response)
          (example_client (Some (example_store (PyStr ''tok123''))))
          ''GET'' ''/dids/missing'' None None None None None)
     = Inl (RequestException 404 ''Request was unsuccessful: Not found'')"
proof -
  let ?c = "example_client (Some (example_store (PyStr ''tok123'')))"
  let ?e = "example_env not_found_response"
  have h1: "token_store ?c = Some (example_store (PyStr ''tok123''))"
    by simp
  have h2: "manager_send ?e
              (send_request ?e ?c (example_store (PyStr ''tok123''))
                 ''GET'' ''/dids/missing'' None None None None None)
              = Inr not_found_response"
    by simp
  have h3: "300 \<le> status_code not_found_response"
    by (simp add: not_found_response_def)
  have h4: "resp_json not_found_response = Some (PyDict [(''detail'', PyStr ''Not found'')])"
    by (simp add: not_found_response_def)
  have u: "req_url (send_request ?e ?c (example_store (PyStr ''tok123''))
                      ''GET'' ''/dids/missing'' None None None None None)
             = ''https://api.example/dids/missing''"
    by (simp add: send_request_def build_request_def build_url_def startswith_slash_def
        example_client_def)
  show ?thesis
    using h1 h2 h3 h4 u send_failure_message [OF h1 h2 h3 h4]
    by (simp add: not_found_response_def)
qed

text \<open>
  C3: \<open>send\<close> raises a \<open>RequestException\<close> carrying the status code if and only if
  the response has status at least 300. The code misses this for a failure response
  whose body is not JSON (an HTML error page, an empty body): \<^verbatim>\<open>resp.json()\<close> raises
  \<^verbatim>\<open>JSONDecodeError\<close>, which the clause \<^verbatim>\<open>except (KeyError, AttributeError)\<close> does
  not catch, so the decode error leaves \<open>send\<close> instead of the \<open>RequestException\<close>
  that the fallback to \<^verbatim>\<open>resp.text\<close> was written to build.
\<close>

theorem send_non_json_failure_raises_decode_error:
  "300 \<le> status_code gateway_error_response \<and>
   resp_json gateway_error_response = None \<and>
   fst (send (example_env gateway_error_response)
          (example_client (Some (example_store (PyStr ''tok123''))))
          ''GET'' ''/dids/'' None None None None None)
     = Inl JSONDecodeError \<and>
   fst (send (example_env gateway_error_response)
          (example_client (Some (example_store (PyStr ''tok123''))))
          ''GET'' ''/dids/'' None None None None None)
     \<noteq> Inl (RequestException 502 ''Request was unsuccessful: <html>Bad Gateway</html>'')"
  by (simp add: send_with_store [of _ "example_store (PyStr ''tok123'')"]
      error_detail_not_json gateway_error_response_def)

subsection \<open>post\<close>

text \<open>
  C5, as stated: when at least one of body and file is supplied, \<open>post\<close> does not
  raise the malformed-request error and delegates to \<open>send\<close>. It fails when the body
  supplied is the empty dictionary: \<^verbatim>\<open>not data\<close> is true for it, and \<open>post\<close> raises
  without a request being handed over.
\<close>

theorem post_empty_body_counterexample:
  "(Some [] :: py_dict option) \<noteq> None \<and>
   fst (post (example_env ok_response)
          (example_client (Some (example_store (PyStr ''tok123''))))
          ''/domains/d/vcs/'' (Some []) None None None None)
     = Inl (RequestException 400
              ''Post requests must either send an upload_file or data.'') \<and>
   post (example_env ok_response)
     (example_client (Some (example_store (PyStr ''tok123''))))
     ''/domains/d/vcs/'' (Some []) None None None None
     \<noteq> send (example_env ok_response)
         (example_client (Some (example_store (PyStr ''tok123''))))
         ''POST'' ''/domains/d/vcs/'' (Some []) None None None None"
  by (simp add: post_def truthy_opt_def
      send_with_store [of _ "example_store (PyStr ''tok123'')"] ok_response_def)

text \<open>
  C5, amended: \<open>post\<close> invoked with the body absent or empty and the upload file
  absent or empty raises the malformed-request error (a \<open>RequestException\<close> with
  status 400) at once: the client is returned as it was and no request has been
  handed to the middleware manager. When a non-empty body or a non-empty upload is
  supplied, \<open>post\<close> raises no error of its own and is \<open>send\<close> with method \<open>POST\<close>.
\<close>

theorem post_requires_body_or_file:
  "((data = None \<or> data = Some []) \<and> (upload_file = None \<or> upload_file = Some []) \<longrightarrow>
      post e c url data upload_file params headers cookies =
        (Inl (RequestException 400
                ''Post requests must either send an upload_file or data.''), c) \<and>
      issued c (snd (post e c url data upload_file params headers cookies)) = []) \<and>
   ((data = Some d \<and> d \<noteq> []) \<or> (upload_file = Some f \<and> f \<noteq> []) \<longrightarrow>
      post e c url data upload_file params headers cookies =
        send e c ''POST'' url data upload_file params headers cookies)"
  by (auto simp: post_def truthy_opt_def)

theorem post_requires_body_or_file_witness:
  "((None :: py_dict option) = None \<or> (None :: py_dict option) = Some []) \<and>
   ((None :: request_files option) = None \<or> (None :: request_files option) = Some []) \<and>
   post (example_env ok_response) (example_client None) ''/domains/d/vcs/''
     None None None None None =
     (Inl (RequestException 400
             ''Post requests must either send an upload_file or data.''),
      example_client None) \<and>
   issued (example_client None)
     (snd (post (example_env ok_response) (example_client None) ''/domains/d/vcs/''
             None None None None None)) = [] \<and>
   (Some [(''name'', PyStr ''vc'')] = Some [(''name'', PyStr ''vc'')] \<and>
    [(''name'', PyStr ''vc'')] \<noteq> []) \<and>
   post (example_env ok_response) (example_client None) ''/domains/d/vcs/''
     (Some [(''name'', PyStr ''vc'')]) None None None None =
   send (example_env ok_response) (example_client None) ''POST'' ''/domains/d/vcs/''
     (Some [(''name'', PyStr ''vc'')]) None None None None"
  using post_requires_body_or_file [where data = None and upload_file = None
          and d = "[]" and f = "[]" and e = "example_env ok_response"
          and c = "example_client None" and url = "''/domains/d/vcs/''"
          and params = None and headers = None and cookies = None]
        post_requires_body_or_file [where data = "Some [(''name'', PyStr ''vc'')]"
          and upload_file = None and d = "[(''name'', PyStr ''vc'')]" and f = "[]"
          and e = "example_env ok_response" and c = "example_client None"
          and url = "''/domains/d/vcs/''"
          and params = None and headers = None and cookies = None]
  by simp

subsection \<open>authorise\<close>

lemma authorise_unfold:
  "authorise e c token_url headers =
     (case manager_send e (authorise_request e token_url headers) of
        Inl err \<Rightarrow>
          (Inl err, c\<lparr>dispatched := dispatched c @ [authorise_request e token_url headers]\<rparr>)
      | Inr resp \<Rightarrow>
          if status_code resp \<noteq> 200
          then (Inl (RequestException (status_code resp)
                       (''Authorization failed: '' @ resp_text resp)),
                c\<lparr>dispatched := dispatched c @ [authorise_request e token_url headers]\<rparr>)
          else (case token_store c of
                  None \<Rightarrow>
                    (Inl (LookupError ''No token_path store registered to this client''),
                     c\<lparr>dispatched := dispatched c @ [authorise_request e token_url headers]\<rparr>)
                | Some ts \<Rightarrow>
                    (case json_subscript (resp_json resp) ''access_token'' of
                       Inl err \<Rightarrow>
                         (Inl err,
                          c\<lparr>dispatched :=
                              dispatched c @ [authorise_request e token_url headers]\<rparr>)
                     | Inr tok \<Rightarrow>
                         (case json_subscript (resp_json resp) ''expires_at'' of
                            Inl err \<Rightarrow>
                              (Inl err,
                               c\<lparr>dispatched :=
                                   dispatched c @ [authorise_request e token_url headers]\<rparr>)
                          | Inr ex \<Rightarrow>
                              (Inr (),
                               c\<lparr>dispatched :=
                                   dispatched c @ [authorise_request e token_url headers],
                                 token_store :=
                                   Some (set_token ts (CLIENT_ID e) tok ex)\<rparr>)))))"
  unfolding authorise_def authorise_request_def Let_def
  by (simp split: sum.split option.split)

lemma issued_append_store [simp]:
  "issued c (c\<lparr>dispatched := dispatched c @ rs, token_store := ts\<rparr>) = rs"
  by (simp add: issued_def)

lemma authorise_issued:
  "issued c (snd (authorise e c token_url headers)) = [authorise_request e token_url headers]"
  by (simp add: authorise_unfold split: sum.split option.split)

lemma authorise_not_ok:
  assumes "manager_send e (authorise_request e token_url headers) = Inr resp"
    and "status_code resp \<noteq> 200"
  shows "authorise e c token_url headers =
           (Inl (RequestException (status_code resp)
                   (''Authorization failed: '' @ resp_text resp)),
            c\<lparr>dispatched := dispatched c @ [authorise_request e token_url headers]\<rparr>)"
  using assms by (simp add: authorise_unfold)

lemma authorise_ok_no_store:
  assumes "manager_send e (authorise_request e token_url headers) = Inr resp"
    and "status_code resp = 200"
    and "token_store c = None"
  shows "authorise e c token_url headers =
           (Inl (LookupError ''No token_path store registered to this client''),
            c\<lparr>dispatched := dispatched c @ [authorise_request e token_url headers]\<rparr>)"
  using assms by (simp add: authorise_unfold)

lemma authorise_ok_store:
  assumes "manager_send e (authorise_request e token_url headers) = Inr resp"
    and "status_code resp = 200"
    and "token_store c = Some ts"
    and "json_subscript (resp_json resp) ''access_token'' = Inr tok"
    and "json_subscript (resp_json resp) ''expires_at'' = Inr ex"
  shows "authorise e c token_url headers =
           (Inr (),
            c\<lparr>dispatched := dispatched c @ [authorise_request e token_url headers],
              token_store := Some (set_token ts (CLIENT_ID e) tok ex)\<rparr>)"
  using assms by (simp add: authorise_unfold)

lemma get_set_token [simp]: "get_token (set_token ts i tok ex) i = tok"
  by (simp add: get_token_def set_token_def)

text \<open>
  C4: \<open>authorise\<close> builds the token request and hands it, and nothing else, to the
  middleware manager. When the token endpoint answers it with status 200 and the body
  \<open>{"access_token": "tok123", "expires_at": 1700000000}\<close>, \<open>authorise\<close> returns
  normally and afterwards the client's token store yields \<open>tok123\<close> for the client
  identifier (the store is the one the client was constructed with: the claim speaks
  of a client that has one). When the endpoint answers with any status other than
  200, \<open>authorise\<close> raises a \<open>RequestException\<close> with that status and the message
  \<open>Authorization failed: \<close> followed by the body text, and the token store is the
  one before the call, so every stored token is unchanged.
\<close>

theorem authorise_stores_token:
  assumes "manager_send e (authorise_request e token_url headers) = Inr resp"
  shows "issued c (snd (authorise e c token_url headers))
           = [authorise_request e token_url headers] \<and>
         (status_code resp = 200 \<and>
          resp_json resp = Some (PyDict [(''access_token'', PyStr ''tok123''),
                                         (''expires_at'', PyInt 1700000000)]) \<and>
          token_store c = Some ts \<longrightarrow>
            fst (authorise e c token_url headers) = Inr () \<and>
            map_option (\<lambda>ts'. get_token ts' (CLIENT_ID e))
              (token_store (snd (authorise e c token_url headers)))
              = Some (PyStr ''tok123'')) \<and>
         (status_code resp \<noteq> 200 \<longrightarrow>
            fst (authorise e c token_url headers) =
              Inl (RequestException (status_code resp)
                     (''Authorization failed: '' @ resp_text resp)) \<and>
            token_store (snd (authorise e c token_url headers)) = token_store c)"
proof (intro conjI impI)
  show "issued c (snd (authorise e c token_url headers))
          = [authorise_request e token_url headers]"
    by (rule authorise_issued)
next
  assume a: "status_code resp = 200 \<and>
          resp_json resp = Some (PyDict [(''access_token'', PyStr ''tok123''),
                                         (''expires_at'', PyInt 1700000000)]) \<and>
          token_store c = Some ts"
  then have t: "json_subscript (resp_json resp) ''access_token'' = Inr (PyStr ''tok123'')"
    and x: "json_subscript (resp_json resp) ''expires_at'' = Inr (PyInt 1700000000)"
    by simp_all
  from a have ok: "status_code resp = 200" and st: "token_store c = Some ts"
    by simp_all
  show "fst (authorise e c token_url headers) = Inr ()"
    by (simp add: authorise_ok_store [OF assms ok st t x])
  show "map_option (\<lambda>ts'. get_token ts' (CLIENT_ID e))
            (token_store (snd (authorise e c token_url headers)))
            = Some (PyStr ''tok123'')"
    by (simp add: authorise_ok_store [OF assms ok st t x])
next
  assume n: "status_code resp \<noteq> 200"
  show "fst (authorise e c token_url headers) =
            Inl (RequestException (status_code resp)
                   (''Authorization failed: '' @ resp_text resp))"
    by (simp add: authorise_not_ok [OF assms n])
  show "token_store (snd (authorise e c token_url headers)) = token_store c"
    by (simp add: authorise_not_ok [OF assms n])
qed

theorem authorise_stores_token_witness:
  "manager_send (example_env token_response)
     (authorise_request (example_env token_response) ''https://auth.example/token'' None)
     = Inr token_response \<and>
   map req_url
     (issued (example_client (Some (example_store (PyStr ''old''))))
        (snd (authorise (example_env token_response)
                (example_client (Some (example_store (PyStr ''old''))))
                ''https://auth.example/token'' None)))
     = [''https://auth.example/token''] \<and>
   status_code token_response = 200 \<and>
   resp_json token_response = Some (PyDict [(''access_token'', PyStr ''tok123''),
                                            (''expires_at'', PyInt 1700000000)]) \<and>
   token_store (example_client (Some (example_store (PyStr ''old''))))
     = Some (example_store (PyStr ''old'')) \<and>
   fst (authorise (example_env token_response)
          (example_client (Some (example_store (PyStr ''old''))))
          ''https://auth.example/token'' None) = Inr () \<and>
   map_option (\<lambda>ts'. get_token ts' ''client-1'')
     (token_store (snd (authorise (example_env token_response)
                          (example_client (Some (example_store (PyStr ''old''))))
                          ''https://auth.example/token'' None)))
     = Some (PyStr ''tok123'') \<and>
   manager_send (example_env unauthorized_response)
     (authorise_request (example_env unauthorized_response)
        ''https://auth.example/token'' None)
     = Inr unauthorized_response \<and>
   status_code unauthorized_response \<noteq> 200 \<and>
   fst (authorise (example_env unauthorized_response)
          (example_client (Some (example_store (PyStr ''old''))))
          ''https://auth.example/token'' None)
     = Inl (RequestException 401 ''Authorization failed: invalid client'') \<and>
   map_option (\<lambda>ts'. get_token ts' ''client-1'')
     (token_store (snd (authorise (example_env unauthorized_response)
                          (example_client (Some (example_store (PyStr ''old''))))
                          ''https://auth.example/token'' None)))
     = Some (PyStr ''old'')"
proof -
  let ?c = "example_client (Some (example_store (PyStr ''old'')))"
  have m1: "manager_send (example_env token_response)
              (authorise_request (example_env token_response)
                 ''https://auth.example/token'' None)
              = Inr token_response"
    by simp
  have m2: "manager_send (example_env unauthorized_response)
              (authorise_request (example_env unauthorized_response)
                 ''https://auth.example/token'' None)
              = Inr unauthorized_response"
    by simp
  have u: "req_url (authorise_request (example_env token_response)
                      ''https://auth.example/token'' None)
             = ''https://auth.example/token''"
    by (simp add: authorise_request_def build_request_def)
  have s1: "status_code token_response = 200"
    and j1: "resp_json token_response = Some (PyDict [(''access_token'', PyStr ''tok123''),
                                                      (''expires_at'', PyInt 1700000000)])"
    by (simp_all add: token_response_def)
  have s2: "status_code unauthorized_response \<noteq> 200"
    by (simp add: unauthorized_response_def)
  have st: "token_store ?c = Some (example_store (PyStr ''old''))"
    by simp
  show ?thesis
    using m1 m2 u s1 j1 s2 st
      authorise_stores_token [OF m1, where c = ?c and ts = "example_store (PyStr ''old'')"]
      authorise_stores_token [OF m2, where c = ?c and ts = "example_store (PyStr ''old'')"]
    by (simp add: unauthorized_response_def)
qed

text \<open>
  C10: on a client with no token store, \<open>authorise\<close> still builds the token request
  and hands it, and nothing else, to the middleware manager, and the store is looked
  for only after a response with status 200: a response with any other status raises
  the \<open>RequestException\<close> with that status and the body text, and the lookup error
  is raised exactly when the status is 200.
\<close>

theorem authorise_without_token_store:
  assumes "token_store c = None"
    and "manager_send e (authorise_request e token_url headers) = Inr resp"
  shows "issued c (snd (authorise e c token_url headers))
           = [authorise_request e token_url headers] \<and>
         fst (authorise e c token_url headers) =
           (if status_code resp = 200
            then Inl (LookupError ''No token_path store registered to this client'')
            else Inl (RequestException (status_code resp)
                        (''Authorization failed: '' @ resp_text resp)))"
proof (cases "status_code resp = 200")
  case True
  then show ?thesis
    by (simp add: authorise_issued authorise_ok_no_store [OF assms(2) True assms(1)])
next
  case False
  then show ?thesis
    by (simp add: authorise_issued authorise_not_ok [OF assms(2) False])
qed

theorem authorise_without_token_store_witness:
  "token_store (example_client None) = None \<and>
   manager_send (example_env unauthorized_response)
     (authorise_request (example_env unauthorized_response)
        ''https://auth.example/token'' None)
     = Inr unauthorized_response \<and>
   map req_url
     (issued (example_client None)
        (snd (authorise (example_env unauthorized_response) (example_client None)
                ''https://auth.example/token'' None)))
     = [''https://auth.example/token''] \<and>
   fst (authorise (example_env unauthorized_response) (example_client None)
          ''https://auth.example/token'' None)
     = Inl (RequestException 401 ''Authorization failed: invalid client'') \<and>
   manager_send (example_env token_response)
     (authorise_request (example_env token_response) ''https://auth.example/token'' None)
     = Inr token_response \<and>
   map req_url
     (issued (example_client None)
        (snd (authorise (example_env token_response) (example_client None)
                ''https://auth.example/token'' None)))
     = [''https://auth.example/token''] \<and>
   fst (authorise (example_env token_response) (example_client None)
          ''https://auth.example/token'' None)
     = Inl (LookupError ''No token_path store registered to this client'')"
proof -
  let ?c = "example_client None"
  have n: "token_store ?c = None"
    by simp
  have m1: "manager_send (example_env unauthorized_response)
              (authorise_request (example_env unauthorized_response)
                 ''https://auth.example/token'' None)
              = Inr unauthorized_response"
    by simp
  have m2: "manager_send (example_env token_response)
              (authorise_request (example_env token_response)
                 ''https://auth.example/token'' None)
              = Inr token_response"
    by simp
  have u: "\<And>e. req_url (authorise_request e ''https://auth.example/token'' None)
             = ''https://auth.example/token''"
    by (simp add: authorise_request_def build_request_def)
  show ?thesis
    using n m1 m2 u
      authorise_without_token_store [OF n m1]
      authorise_without_token_store [OF n m2]
    by (simp add: unauthorized_response_def token_response_def)
qed

subsection \<open>Query arguments of the generated methods\<close>

lemma get_params:
  "token_store c = Some ts \<Longrightarrow>
   map req_params (issued c (snd (get e c url params headers cookies)))
     = [Some (or_empty params)]"
  by (simp add: get_def send_issued send_request_params)

lemma put_params:
  "token_store c = Some ts \<Longrightarrow>
   map req_params (issued c (snd (put e c url data upload_file params headers cookies)))
     = [Some (or_empty params)]"
  by (simp add: put_def send_issued send_request_params)

lemma snd_response_handling:
  "snd (case x of (Inl err, c') \<Rightarrow> (Inl err, c') | (Inr resp, c') \<Rightarrow> (f resp, c')) = snd x"
  by (simp split: prod.split sum.split)

lemma not_none_items_set:
  "set (not_none_items q) = {kv \<in> set q. snd kv \<noteq> PyNone}"
  by (auto simp: not_none_items_def)

lemma dict_or_not_none:
  assumes "PyNone \<notin> snd ` set a" and "PyNone \<notin> snd ` set b"
  shows "PyNone \<notin> snd ` set (dict_or a b)"
proof
  assume "PyNone \<in> snd ` set (dict_or a b)"
  then obtain k where "(k, PyNone) \<in> set (dict_or a b)"
    by force
  then consider v where "(k, v) \<in> set a"
      and "PyNone = (case map_of b k of None \<Rightarrow> v | Some w \<Rightarrow> w)"
    | "(k, PyNone) \<in> set b"
    by (auto simp: dict_or_def)
  then show False
  proof cases
    case 1
    show False
    proof (cases "map_of b k")
      case None
      with 1 have "(k, PyNone) \<in> set a" by simp
      with assms(1) show False by force
    next
      case (Some w)
      with 1 have "(k, PyNone) \<in> set b" by (simp add: map_of_SomeD)
      with assms(2) show False by force
    qed
  next
    case 2
    with assms(2) show False by force
  qed
qed

lemma admin_list_vcs_client:
  "snd (admin_list_vcs e validate c q domain_name) =
     snd (get e c (''/admin/domains/'' @ domain_name @ ''/vcs/'')
            (Some (dict_or [(''domain_name'', PyStr domain_name)] (not_none_items q)))
            None None)"
  by (simp add: admin_list_vcs_def Let_def snd_response_handling)

lemma admin_list_vps_client:
  "snd (admin_list_vps e validate c q domain_name) =
     snd (get e c (''/admin/domains/'' @ domain_name @ ''/vps/'')
            (Some (dict_or [(''domain_name'', PyStr domain_name)] (not_none_items q)))
            None None)"
  by (simp add: admin_list_vps_def Let_def snd_response_handling)

lemma admin_list_tasks_client:
  "snd (admin_list_tasks e validate c q domain_name) =
     snd (get e c (''/admin/domains/'' @ domain_name @ ''/tasks/'')
            (Some (dict_or [(''domain_name'', PyStr domain_name)] (not_none_items q)))
            None None)"
  by (simp add: admin_list_tasks_def Let_def snd_response_handling)

lemma list_did_strings_client:
  "snd (list_did_strings e c q) =
     snd (get e c ''/dids/'' (Some (dict_or [] (not_none_items q))) None None)"
  by (simp add: list_did_strings_def Let_def snd_response_handling)

lemma get_did_document_client:
  "snd (get_did_document e validate c q did_id) =
     snd (get e c (''/dids/'' @ did_id)
            (Some (dict_or [(''did_id'', PyStr did_id)] (not_none_items q))) None None)"
  by (simp add: get_did_document_def Let_def snd_response_handling)

lemma list_custodial_accounts_client:
  "snd (list_custodial_accounts e validate c q) =
     snd (get e c ''/users/accounts/'' (Some (dict_or [] (not_none_items q))) None None)"
  by (simp add: list_custodial_accounts_def Let_def snd_response_handling)

lemma list_trust_profiles_client:
  "snd (list_trust_profiles e validate c q domain_name) =
     snd (get e c (''/domains/'' @ domain_name @ ''/trustprofiles/'')
            (Some (dict_or [(''domain_name'', PyStr domain_name)] (not_none_items q)))
            None None)"
  by (simp add: list_trust_profiles_def Let_def snd_response_handling)

lemma list_dids_client:
  "snd (list_dids e validate c q domain_name) =
     snd (get e c (''/domains/'' @ domain_name @ ''/dids/'')
            (Some (dict_or [(''domain_name'', PyStr domain_name)] (not_none_items q)))
            None None)"
  by (simp add: list_dids_def Let_def snd_response_handling)

lemma list_vcs_client:
  "snd (list_vcs e validate c q domain_name) =
     snd (get e c (''/domains/'' @ domain_name @ ''/vcs/'')
            (Some (dict_or [(''domain_name'', PyStr domain_name)] (not_none_items q)))
            None None)"
  by (simp add: list_vcs_def Let_def snd_response_handling)

lemma accept_vc_client:
  "snd (accept_vc e c q vc_id domain_name) =
     snd (put e c (''/domains/'' @ domain_name @ ''/vcs/'' @ vc_id @ ''/accept/'') None None
            (Some (dict_or [(''vc_id'', PyStr vc_id), (''domain_name'', PyStr domain_name)]
                     (not_none_items q)))
            None None)"
  by (simp add: accept_vc_def Let_def snd_response_handling)

lemma get_vps_client:
  "snd (get_vps e validate c q domain_name) =
     snd (get e c (''/domains/'' @ domain_name @ ''/vps/'')
            (Some (dict_or [(''domain_name'', PyStr domain_name)] (not_none_items q)))
            None None)"
  by (simp add: get_vps_def Let_def snd_response_handling)

lemma list_tasks_client:
  "snd (list_tasks e validate c q domain_name) =
     snd (get e c (''/domains/'' @ domain_name @ ''/tasks/'')
            (Some (dict_or [(''domain_name'', PyStr domain_name)] (not_none_items q)))
            None None)"
  by (simp add: list_tasks_def Let_def snd_response_handling)

text \<open>
  C9: each of the twelve generated methods that take a \<open>query_arguments\<close> object
  hands, on a client with a token store, exactly one request to the middleware
  manager, and the query parameters of that request are the method's path parameters
  merged with the items of \<open>query_arguments\<close> whose value is not \<^verbatim>\<open>None\<close>. Those
  items are all the items of \<open>query_arguments\<close> with a value other than \<^verbatim>\<open>None\<close>
  and no others, and the merged parameters hold no \<^verbatim>\<open>None\<close> value (the path
  parameters are strings).
\<close>

theorem generated_methods_drop_none_query_arguments:
  assumes "token_store c = Some ts"
  shows
    "map req_params (issued c (snd (admin_list_vcs e validate c q domain_name)))
       = [Some (dict_or [(''domain_name'', PyStr domain_name)] (not_none_items q))] \<and>
     map req_params (issued c (snd (admin_list_vps e validate c q domain_name)))
       = [Some (dict_or [(''domain_name'', PyStr domain_name)] (not_none_items q))] \<and>
     map req_params (issued c (snd (admin_list_tasks e validate c q domain_name)))
       = [Some (dict_or [(''domain_name'', PyStr domain_name)] (not_none_items q))] \<and>
     map req_params (issued c (snd (list_did_strings e c q)))
       = [Some (dict_or [] (not_none_items q))] \<and>
     map req_params (issued c (snd (get_did_document e validate c q did_id)))
       = [Some (dict_or [(''did_id'', PyStr did_id)] (not_none_items q))] \<and>
     map req_params (issued c (snd (list_custodial_accounts e validate c q)))
       = [Some (dict_or [] (not_none_items q))] \<and>
     map req_params (issued c (snd (list_trust_profiles e validate c q domain_name)))
       = [Some (dict_or [(''domain_name'', PyStr domain_name)] (not_none_items q))] \<and>
     map req_params (issued c (snd (list_dids e validate c q domain_name)))
       = [Some (dict_or [(''domain_name'', PyStr domain_name)] (not_none_items q))] \<and>
     map req_params (issued c (snd (list_vcs e validate c q domain_name)))
       = [Some (dict_or [(''domain_name'', PyStr domain_name)] (not_none_items q))] \<and>
     map req_params (issued c (snd (accept_vc e c q vc_id domain_name)))
       = [Some (dict_or [(''vc_id'', PyStr vc_id), (''domain_name'', PyStr domain_name)]
                  (not_none_items q))] \<and>
     map req_params (issued c (snd (get_vps e validate c q domain_name)))
       = [Some (dict_or [(''domain_name'', PyStr domain_name)] (not_none_items q))] \<and>
     map req_params (issued c (snd (list_tasks e validate c q domain_name)))
       = [Some (dict_or [(''domain_name'', PyStr domain_name)] (not_none_items q))] \<and>
     set (not_none_items q) = {kv \<in> set q. snd kv \<noteq> PyNone} \<and>
     PyNone \<notin> snd ` set (dict_or [] (not_none_items q)) \<and>
     PyNone \<notin> snd ` set (dict_or [(''domain_name'', PyStr domain_name)] (not_none_items q)) \<and>
     PyNone \<notin> snd ` set (dict_or [(''did_id'', PyStr did_id)] (not_none_items q)) \<and>
     PyNone \<notin> snd ` set (dict_or [(''vc_id'', PyStr vc_id), (''domain_name'', PyStr domain_name)]
                              (not_none_items q))"
proof -
  have n: "PyNone \<notin> snd ` set (not_none_items q)"
    by (auto simp: not_none_items_set)
  have g: "\<And>url p. map req_params (issued c (snd (get e c url (Some p) None None))) = [Some p]"
    by (simp add: get_params [OF assms])
  have p: "\<And>url p. map req_params (issued c (snd (put e c url None None (Some p) None None)))
             = [Some p]"
    by (simp add: put_params [OF assms])
  have 1: "map req_params (issued c (snd (admin_list_vcs e validate c q domain_name)))
       = [Some (dict_or [(''domain_name'', PyStr domain_name)] (not_none_items q))]"
    by (simp only: admin_list_vcs_client g)
  have 2: "map req_params (issued c (snd (admin_list_vps e validate c q domain_name)))
       = [Some (dict_or [(''domain_name'', PyStr domain_name)] (not_none_items q))]"
    by (simp only: admin_list_vps_client g)
  have 3: "map req_params (issued c (snd (admin_list_tasks e validate c q domain_name)))
       = [Some (dict_or [(''domain_name'', PyStr domain_name)] (not_none_items q))]"
    by (simp only: admin_list_tasks_client g)
  have 4: "map req_params (issued c (snd (list_did_strings e c q)))
       = [Some (dict_or [] (not_none_items q))]"
    by (simp only: list_did_strings_client g)
  have 5: "map req_params (issued c (snd (get_did_document e validate c q did_id)))
       = [Some (dict_or [(''did_id'', PyStr did_id)] (not_none_items q))]"
    by (simp only: get_did_document_client g)
  have 6: "map req_params (issued c (snd (list_custodial_accounts e validate c q)))
       = [Some (dict_or [] (not_none_items q))]"
    by (simp only: list_custodial_accounts_client g)
  have 7: "map req_params (issued c (snd (list_trust_profiles e validate c q domain_name)))
       = [Some (dict_or [(''domain_name'', PyStr domain_name)] (not_none_items q))]"
    by (simp only: list_trust_profiles_client g)
  have 8: "map req_params (issued c (snd (list_dids e validate c q domain_name)))
       = [Some (dict_or [(''domain_name'', PyStr domain_name)] (not_none_items q))]"
    by (simp only: list_dids_client g)
  have 9: "map req_params (issued c (snd (list_vcs e validate c q domain_name)))
       = [Some (dict_or [(''domain_name'', PyStr domain_name)] (not_none_items q))]"
    by (simp only: list_vcs_client g)
  have 10: "map req_params (issued c (snd (accept_vc e c q vc_id domain_name)))
       = [Some (dict_or [(''vc_id'', PyStr vc_id), (''domain_name'', PyStr domain_name)]
                  (not_none_items q))]"
    by (simp only: accept_vc_client p)
  have 11: "map req_params (issued c (snd (get_vps e validate c q domain_name)))
       = [Some (dict_or [(''domain_name'', PyStr domain_name)] (not_none_items q))]"
    by (simp only: get_vps_client g)
  have 12: "map req_params (issued c (snd (list_tasks e validate c q domain_name)))
       = [Some (dict_or [(''domain_name'', PyStr domain_name)] (not_none_items q))]"
    by (simp only: list_tasks_client g)
  have a: "PyNone \<notin> snd ` set (dict_or [] (not_none_items q))"
    by (rule dict_or_not_none [OF _ n]) simp
  have b: "PyNone \<notin> snd ` set (dict_or [(''domain_name'', PyStr domain_name)]
                                   (not_none_items q))"
    by (rule dict_or_not_none [OF _ n]) simp
  have d: "PyNone \<notin> snd ` set (dict_or [(''did_id'', PyStr did_id)] (not_none_items q))"
    by (rule dict_or_not_none [OF _ n]) simp
  have v: "PyNone \<notin> snd ` set (dict_or [(''vc_id'', PyStr vc_id),
                                          (''domain_name'', PyStr domain_name)]
                                   (not_none_items q))"
    by (rule dict_or_not_none [OF _ n]) simp
  from 1 2 3 4 5 6 7 8 9 10 11 12 not_none_items_set [of q] a b d v
  show ?thesis
    by (intro conjI)
qed

theorem generated_methods_drop_none_query_arguments_witness:
  "token_store (example_client (Some (example_store (PyStr ''tok123''))))
     = Some (example_store (PyStr ''tok123'')) \<and>
   map req_params
     (issued (example_client (Some (example_store (PyStr ''tok123''))))
        (snd (admin_list_vcs (example_env ok_response) Some
                (example_client (Some (example_store (PyStr ''tok123''))))
                [(''alias__ilike'', PyStr ''deg%''), (''tags__in'', PyNone),
                 (''page'', PyInt 1), (''size'', PyNone)]
                ''acme'')))
     = [Some [(''domain_name'', PyStr ''acme''), (''alias__ilike'', PyStr ''deg%''),
              (''page'', PyInt 1)]] \<and>
   map req_params
     (issued (example_client (Some (example_store (PyStr ''tok123''))))
        (snd (list_did_strings (example_env ok_response)
                (example_client (Some (example_store (PyStr ''tok123''))))
                [(''alias__ilike'', PyStr ''deg%''), (''tags__in'', PyNone),
                 (''page'', PyInt 1), (''size'', PyNone)])))
     = [Some [(''alias__ilike'', PyStr ''deg%''), (''page'', PyInt 1)]] \<and>
   map req_params
     (issued (example_client (Some (example_store (PyStr ''tok123''))))
        (snd (accept_vc (example_env ok_response)
                (example_client (Some (example_store (PyStr ''tok123''))))
                [(''alias__ilike'', PyStr ''deg%''), (''tags__in'', PyNone),
                 (''page'', PyInt 1), (''size'', PyNone)]
                ''vc-1'' ''acme'')))
     = [Some [(''vc_id'', PyStr ''vc-1''), (''domain_name'', PyStr ''acme''),
              (''alias__ilike'', PyStr ''deg%''), (''page'', PyInt 1)]]"
proof -
  have h: "token_store (example_client (Some (example_store (PyStr ''tok123''))))
             = Some (example_store (PyStr ''tok123''))"
    by simp
  have q: "not_none_items [(''alias__ilike'', PyStr ''deg%''), (''tags__in'', PyNone),
                           (''page'', PyInt 1), (''size'', PyNone)]
             = [(''alias__ilike'', PyStr ''deg%''), (''page'', PyInt 1)]"
    by (simp add: not_none_items_def)
  show ?thesis
    using h generated_methods_drop_none_query_arguments [OF h,
        where e = "example_env ok_response" and validate = Some
          and q = "[(''alias__ilike'', PyStr ''deg%''), (''tags__in'', PyNone),
                    (''page'', PyInt 1), (''size'', PyNone)]"
          and domain_name = "''acme''" and vc_id = "''vc-1''" and did_id = "''did:1''"]
    by (simp add: q dict_or_def)
qed

end
